theory Spec2Isabelle
  imports Main "HOL-Library.Word"
begin

section \<open>The linalg Core module: dispatch of dense linear-algebra operations\<close>

text \<open>
  The header \<^verbatim>\<open>shogun/mathematics/linalg/internal/modules/Core.h\<close> declares one function
  template per operation. Each template has two template parameters, the backend (with the
  default \<^verbatim>\<open>linalg_traits<Core>::backend\<close>) and the container class \<^verbatim>\<open>Matrix\<close>, and its body
  is a single call of \<^verbatim>\<open>implementation::op<backend, Matrix>::compute\<close>.

  The embedding turns the template parameters into ordinary parameters:
  \<^item> the backend is a \<open>'b option\<close>: \<open>None\<close> when the call names no backend;
  \<^item> the class \<^verbatim>\<open>Matrix\<close> is a value of a type \<open>'t\<close> of container-class names, and the
    containers themselves are values of a type \<open>'m\<close>;
  \<^item> the optional trailing arguments of a call are a list, in the order of the declaration,
    so that only a suffix of them can be left out, as in C++.
  What the header takes from elsewhere (the macro \<^verbatim>\<open>HAVE_LINALG_LIB\<close>, the trait
  \<^verbatim>\<open>linalg_traits<Core>::backend\<close> and the specializations of the \<^verbatim>\<open>implementation\<close> structs)
  is a parameter of every function: the record \<open>build\<close>.

  A container is handed over by value but shares its storage, so \<^verbatim>\<open>compute\<close> changes the
  caller's output container. In the model a kernel returns the new contents of the output
  container, or the error it reports.
\<close>

subsection \<open>Errors\<close>

datatype operation =
  Add | MatrixProduct | Subtract | Scale | ElementwiseProduct | ElementwiseSquare | Convolve

text \<open>
  The first three errors stop the build: the called function is not declared (it stands
  inside \<^verbatim>\<open>#ifdef HAVE_LINALG_LIB\<close> and the macro is not defined), no declaration accepts the
  arguments of the call, or the \<^verbatim>\<open>implementation\<close> struct has no specialization for
  the backend and the container class. \<open>BackendError\<close> is a failure that \<^verbatim>\<open>compute\<close>
  reports while it runs.
\<close>

datatype ('b, 't, 'e) error =
  Undeclared operation
  | NoMatchingFunction operation
  | NoSpecialization operation 'b 't
  | BackendError 'e

fun build_time :: "('b, 't, 'e) error \<Rightarrow> bool" where
  "build_time (Undeclared f) = True"
| "build_time (NoMatchingFunction f) = True"
| "build_time (NoSpecialization f b M) = True"
| "build_time (BackendError e) = False"

definition rejected_at_build_time :: "('b, 't, 'e) error + 'a \<Rightarrow> bool" where
  "rejected_at_build_time r = (case r of Inl e \<Rightarrow> build_time e | Inr v \<Rightarrow> False)"

definition available :: "('b, 't, 'e) error + 'a \<Rightarrow> bool" where
  "available r = (case r of Inl (Undeclared f) \<Rightarrow> False | _ \<Rightarrow> True)"

subsection \<open>What the header is compiled against\<close>

type_synonym ('m, 's, 'e) add_compute = "'m \<Rightarrow> 'm \<Rightarrow> 'm \<Rightarrow> 's \<Rightarrow> 's \<Rightarrow> 'e + 'm"
type_synonym ('m, 'e) matrix_product_compute =
  "'m \<Rightarrow> 'm \<Rightarrow> 'm \<Rightarrow> bool \<Rightarrow> bool \<Rightarrow> bool \<Rightarrow> 'e + 'm"
type_synonym ('m, 's, 'e) scale_compute = "'m \<Rightarrow> 'm \<Rightarrow> 's \<Rightarrow> 'e + 'm"
type_synonym ('m, 'e) elementwise_product_compute = "'m \<Rightarrow> 'm \<Rightarrow> 'm \<Rightarrow> 'e + 'm"
type_synonym ('m, 'e) convolve_compute =
  "'m \<Rightarrow> 'm \<Rightarrow> 'm \<Rightarrow> bool \<Rightarrow> bool \<Rightarrow> 32 word \<Rightarrow> 32 word \<Rightarrow> 'e + 'm"

text \<open>
  A specialization of \<^verbatim>\<open>implementation::elementwise_square\<close> has two \<^verbatim>\<open>compute\<close> members:
  \<^verbatim>\<open>compute(m)\<close> returns a new container, and \<^verbatim>\<open>compute(m, result)\<close> writes into \<^verbatim>\<open>result\<close>,
  whose class \<^verbatim>\<open>ResultMatrix\<close> it receives as its first argument here.
\<close>

record ('t, 'm, 'e) elementwise_square_impl =
  compute_returning :: "'m \<Rightarrow> 'e + 'm"
  compute_into :: "'t \<Rightarrow> 'm \<Rightarrow> 'm \<Rightarrow> 'e + 'm"

record ('b, 't, 'm, 's, 'e) build =
  HAVE_LINALG_LIB :: bool
  linalg_traits_Core_backend :: 'b
  implementation_add :: "'b \<times> 't \<rightharpoonup> ('m, 's, 'e) add_compute"
  implementation_matrix_product :: "'b \<times> 't \<rightharpoonup> ('m, 'e) matrix_product_compute"
  implementation_scale :: "'b \<times> 't \<rightharpoonup> ('m, 's, 'e) scale_compute"
  implementation_elementwise_product :: "'b \<times> 't \<rightharpoonup> ('m, 'e) elementwise_product_compute"
  implementation_elementwise_square :: "'b \<times> 't \<rightharpoonup> ('t, 'm, 'e) elementwise_square_impl"
  implementation_convolve :: "'b \<times> 't \<rightharpoonup> ('m, 'e) convolve_compute"

text \<open>The template parameter \<^verbatim>\<open>Backend backend=linalg_traits<Core>::backend\<close>.\<close>

definition backend_or_default :: "('b, 't, 'm, 's, 'e) build \<Rightarrow> 'b option \<Rightarrow> 'b" where
  "backend_or_default bld backend =
     (case backend of None \<Rightarrow> linalg_traits_Core_backend bld | Some b \<Rightarrow> b)"

text \<open>
  Naming \<^verbatim>\<open>implementation::op<backend, Matrix>\<close>: the specialization for exactly this
  backend and this class, or the end of the build.
\<close>

definition specialization ::
  "('b \<times> 't \<rightharpoonup> 'k) \<Rightarrow> operation \<Rightarrow> 'b \<Rightarrow> 't \<Rightarrow> ('b, 't, 'e) error + 'k" where
  "specialization table f b M =
     (case table (b, M) of None \<Rightarrow> Inl (NoSpecialization f b M) | Some k \<Rightarrow> Inr k)"

text \<open>What \<^verbatim>\<open>compute\<close> reports reaches the caller as it is.\<close>

definition passed_through :: "'e + 'm \<Rightarrow> ('b, 't, 'e) error + 'm" where
  "passed_through r = (case r of Inl e \<Rightarrow> Inl (BackendError e) | Inr v \<Rightarrow> Inr v)"

subsection \<open>Default arguments\<close>

text \<open>
  \<^verbatim>\<open>typename Matrix::Scalar alpha=1.0, typename Matrix::Scalar beta=1.0\<close> (add, subtract).
\<close>

fun alpha_beta :: "'s::ring_1 list \<Rightarrow> ('s \<times> 's) option" where
  "alpha_beta [] = Some (1, 1)"
| "alpha_beta [alpha] = Some (alpha, 1)"
| "alpha_beta [alpha, beta] = Some (alpha, beta)"
| "alpha_beta (alpha # beta # extra # rest) = None"

text \<open>\<^verbatim>\<open>typename Matrix::Scalar alpha\<close> (scale): no default value.\<close>

fun only_alpha :: "'s list \<Rightarrow> 's option" where
  "only_alpha [alpha] = Some alpha"
| "only_alpha args = None"

text \<open>\<^verbatim>\<open>bool transpose_A=false, bool transpose_B=false, bool overwrite=true\<close>.\<close>

fun transpose_overwrite :: "bool list \<Rightarrow> (bool \<times> bool \<times> bool) option" where
  "transpose_overwrite [] = Some (False, False, True)"
| "transpose_overwrite [transpose_A] = Some (transpose_A, False, True)"
| "transpose_overwrite [transpose_A, transpose_B] = Some (transpose_A, transpose_B, True)"
| "transpose_overwrite [transpose_A, transpose_B, overwrite] =
     Some (transpose_A, transpose_B, overwrite)"
| "transpose_overwrite (transpose_A # transpose_B # overwrite # extra # rest) = None"

text \<open>
  \<^verbatim>\<open>bool flip = false, bool overwrite=true, int32_t stride_x=1, int32_t stride_y=1\<close>:
  the flags are \<open>Inl\<close>, the strides \<open>Inr\<close>.
\<close>

fun flip_overwrite_strides ::
  "(bool + 32 word) list \<Rightarrow> (bool \<times> bool \<times> 32 word \<times> 32 word) option" where
  "flip_overwrite_strides [] = Some (False, True, 1, 1)"
| "flip_overwrite_strides [Inl flip] = Some (flip, True, 1, 1)"
| "flip_overwrite_strides [Inl flip, Inl overwrite] = Some (flip, overwrite, 1, 1)"
| "flip_overwrite_strides [Inl flip, Inl overwrite, Inr stride_x] =
     Some (flip, overwrite, stride_x, 1)"
| "flip_overwrite_strides [Inl flip, Inl overwrite, Inr stride_x, Inr stride_y] =
     Some (flip, overwrite, stride_x, stride_y)"
| "flip_overwrite_strides args = None"

subsection \<open>The function templates of Core.h\<close>

text \<open>Lines 57 to 62, before \<^verbatim>\<open>#ifdef HAVE_LINALG_LIB\<close>.\<close>

definition add ::
  "('b, 't, 'm, 's::ring_1, 'e) build \<Rightarrow> 'b option \<Rightarrow> 't \<Rightarrow> 'm \<Rightarrow> 'm \<Rightarrow> 'm \<Rightarrow> 's list
     \<Rightarrow> ('b, 't, 'e) error + 'm" where
  "add bld backend Matrix A B C coefficients =
     (case alpha_beta coefficients of
        None \<Rightarrow> Inl (NoMatchingFunction Add)
      | Some (alpha, beta) \<Rightarrow>
          (case specialization (implementation_add bld) Add
                  (backend_or_default bld backend) Matrix of
             Inl err \<Rightarrow> Inl err
           | Inr compute \<Rightarrow> passed_through (compute A B C alpha beta)))"

text \<open>Lines 64 to 153 are compiled only when \<^verbatim>\<open>HAVE_LINALG_LIB\<close> is defined.\<close>

definition matrix_product ::
  "('b, 't, 'm, 's, 'e) build \<Rightarrow> 'b option \<Rightarrow> 't \<Rightarrow> 'm \<Rightarrow> 'm \<Rightarrow> 'm \<Rightarrow> bool list
     \<Rightarrow> ('b, 't, 'e) error + 'm" where
  "matrix_product bld backend Matrix A B C flags =
     (if \<not> HAVE_LINALG_LIB bld then Inl (Undeclared MatrixProduct)
      else case transpose_overwrite flags of
        None \<Rightarrow> Inl (NoMatchingFunction MatrixProduct)
      | Some (transpose_A, transpose_B, overwrite) \<Rightarrow>
          (case specialization (implementation_matrix_product bld) MatrixProduct
                  (backend_or_default bld backend) Matrix of
             Inl err \<Rightarrow> Inl err
           | Inr compute \<Rightarrow>
               passed_through (compute A B C transpose_A transpose_B overwrite)))"

definition subtract ::
  "('b, 't, 'm, 's::ring_1, 'e) build \<Rightarrow> 'b option \<Rightarrow> 't \<Rightarrow> 'm \<Rightarrow> 'm \<Rightarrow> 'm \<Rightarrow> 's list
     \<Rightarrow> ('b, 't, 'e) error + 'm" where
  "subtract bld backend Matrix A B C coefficients =
     (if \<not> HAVE_LINALG_LIB bld then Inl (Undeclared Subtract)
      else case alpha_beta coefficients of
        None \<Rightarrow> Inl (NoMatchingFunction Subtract)
      | Some (alpha, beta) \<Rightarrow>
          (case specialization (implementation_add bld) Add
                  (backend_or_default bld backend) Matrix of
             Inl err \<Rightarrow> Inl err
           | Inr compute \<Rightarrow> passed_through (compute A B C alpha (- 1 * beta))))"

definition scale ::
  "('b, 't, 'm, 's, 'e) build \<Rightarrow> 'b option \<Rightarrow> 't \<Rightarrow> 'm \<Rightarrow> 'm \<Rightarrow> 's list
     \<Rightarrow> ('b, 't, 'e) error + 'm" where
  "scale bld backend Matrix A B coefficients =
     (if \<not> HAVE_LINALG_LIB bld then Inl (Undeclared Scale)
      else case only_alpha coefficients of
        None \<Rightarrow> Inl (NoMatchingFunction Scale)
      | Some alpha \<Rightarrow>
          (case specialization (implementation_scale bld) Scale
                  (backend_or_default bld backend) Matrix of
             Inl err \<Rightarrow> Inl err
           | Inr compute \<Rightarrow> passed_through (compute A B alpha)))"

definition elementwise_product ::
  "('b, 't, 'm, 's, 'e) build \<Rightarrow> 'b option \<Rightarrow> 't \<Rightarrow> 'm \<Rightarrow> 'm \<Rightarrow> 'm
     \<Rightarrow> ('b, 't, 'e) error + 'm" where
  "elementwise_product bld backend Matrix A B C =
     (if \<not> HAVE_LINALG_LIB bld then Inl (Undeclared ElementwiseProduct)
      else case specialization (implementation_elementwise_product bld) ElementwiseProduct
                  (backend_or_default bld backend) Matrix of
             Inl err \<Rightarrow> Inl err
           | Inr compute \<Rightarrow> passed_through (compute A B C))"

text \<open>Lines 112 to 116: \<^verbatim>\<open>elementwise_square(Matrix m)\<close>, which returns the new container.\<close>

definition elementwise_square ::
  "('b, 't, 'm, 's, 'e) build \<Rightarrow> 'b option \<Rightarrow> 't \<Rightarrow> 'm \<Rightarrow> ('b, 't, 'e) error + 'm" where
  "elementwise_square bld backend Matrix m =
     (if \<not> HAVE_LINALG_LIB bld then Inl (Undeclared ElementwiseSquare)
      else case specialization (implementation_elementwise_square bld) ElementwiseSquare
                  (backend_or_default bld backend) Matrix of
             Inl err \<Rightarrow> Inl err
           | Inr impl \<Rightarrow> passed_through (compute_returning impl m))"

text \<open>
  Lines 125 to 129: \<^verbatim>\<open>elementwise_square(Matrix m, ResultMatrix result)\<close>, with the third
  template parameter \<^verbatim>\<open>ResultMatrix\<close>. The struct it names is
  \<^verbatim>\<open>implementation::elementwise_square<backend,Matrix>\<close>.
\<close>

definition elementwise_square_result ::
  "('b, 't, 'm, 's, 'e) build \<Rightarrow> 'b option \<Rightarrow> 't \<Rightarrow> 't \<Rightarrow> 'm \<Rightarrow> 'm
     \<Rightarrow> ('b, 't, 'e) error + 'm" where
  "elementwise_square_result bld backend Matrix ResultMatrix m result =
     (if \<not> HAVE_LINALG_LIB bld then Inl (Undeclared ElementwiseSquare)
      else case specialization (implementation_elementwise_square bld) ElementwiseSquare
                  (backend_or_default bld backend) Matrix of
             Inl err \<Rightarrow> Inl err
           | Inr impl \<Rightarrow> passed_through (compute_into impl ResultMatrix m result))"

definition convolve ::
  "('b, 't, 'm, 's, 'e) build \<Rightarrow> 'b option \<Rightarrow> 't \<Rightarrow> 'm \<Rightarrow> 'm \<Rightarrow> 'm
     \<Rightarrow> (bool + 32 word) list \<Rightarrow> ('b, 't, 'e) error + 'm" where
  "convolve bld backend Matrix X W Y arguments =
     (if \<not> HAVE_LINALG_LIB bld then Inl (Undeclared Convolve)
      else case flip_overwrite_strides arguments of
        None \<Rightarrow> Inl (NoMatchingFunction Convolve)
      | Some (flip, overwrite, stride_x, stride_y) \<Rightarrow>
          (case specialization (implementation_convolve bld) Convolve
                  (backend_or_default bld backend) Matrix of
             Inl err \<Rightarrow> Inl err
           | Inr compute \<Rightarrow>
               passed_through (compute X W Y flip overwrite stride_x stride_y)))"

section \<open>The implementation modules, from their contract\<close>

text \<open>
  The headers under \<^verbatim>\<open>linalg/internal/implementation\<close> that Core.h includes, the enum
  \<^verbatim>\<open>Backend\<close> and the container classes are not part of Core.h. The definitions of this
  section follow the specification's description of them. A container is a list of rows,
  all of one length (\<open>rectangular\<close>); a vector is a container of one row.
\<close>

text \<open>Modelled from the spec: the backend tags, "one compute engine among reference,
  vectorized-CPU, accelerator" (the enum \<^verbatim>\<open>Backend\<close> is declared outside Core.h).\<close>

datatype Backend = Reference | VectorizedCPU | Accelerator

text \<open>Modelled from the spec: the container classes, "Container (Matrix/Vector)" (the
  classes are declared outside Core.h).\<close>

datatype container_class = DenseMatrix | DenseVector

text \<open>Modelled from the spec: the runtime failures an implementation module reports,
  "shape mismatch, ..., even-sized kernel" (the modules are outside Core.h). The spec does
  not say what a stride below one does; the model reports it.\<close>

datatype backend_error = ShapeMismatch | EvenKernel | BadStride

text \<open>Modelled from the spec: the contents of a container, a "generic dense numeric object
  with a declared scalar element type and fixed dimensionality" (the container classes are
  declared outside Core.h), as the list of its rows.\<close>

type_synonym 's matrix = "'s list list"

text \<open>Modelled from the spec: the number of rows of a container.\<close>

definition rows :: "'s matrix \<Rightarrow> nat" where
  "rows M = length M"

text \<open>Modelled from the spec: the number of columns of a container, read off its first
  row.\<close>

definition cols :: "'s matrix \<Rightarrow> nat" where
  "cols M = (case M of [] \<Rightarrow> 0 | r # rest \<Rightarrow> length r)"

text \<open>Modelled from the spec: the lists of rows that are containers, every row as long as
  the first.\<close>

definition rectangular :: "'s matrix \<Rightarrow> bool" where
  "rectangular M = list_all (\<lambda>r. length r = cols M) M"

text \<open>Modelled from the spec: the "shape" that operands must share, the lengths of the
  rows.\<close>

definition shape :: "'s matrix \<Rightarrow> nat list" where
  "shape M = map length M"

text \<open>Modelled from the spec: the container with \<open>r\<close> rows and \<open>c\<close> columns whose
  coefficient \<open>[i,j]\<close> is \<open>f i j\<close>.\<close>

definition tabulate :: "nat \<Rightarrow> nat \<Rightarrow> (nat \<Rightarrow> nat \<Rightarrow> 's) \<Rightarrow> 's matrix" where
  "tabulate r c f = map (\<lambda>i. map (\<lambda>j. f i j) [0..<c]) [0..<r]"

text \<open>Modelled from the spec: the coefficient-wise sum by which a result "is added into
  the existing contents" of the output.\<close>

definition matrix_sum :: "'s::plus matrix \<Rightarrow> 's matrix \<Rightarrow> 's matrix" where
  "matrix_sum C D = map2 (map2 (+)) C D"

text \<open>Modelled from the spec: the kernel \<^verbatim>\<open>implementation::add<backend, Matrix>::compute\<close>
  (Add.h is not among the sources), "computes \<open>C := alpha*A + beta*B\<close> element-wise; valid
  uniformly for vectors and matrices of matching shape", the module "fails on mismatch".\<close>

definition add_kernel :: "('s::comm_ring_1 matrix, 's, backend_error) add_compute" where
  "add_kernel A B C alpha beta =
     (if shape A = shape B \<and> shape B = shape C
      then Inr (map2 (map2 (\<lambda>a b. alpha * a + beta * b)) A B)
      else Inl ShapeMismatch)"

text \<open>Modelled from the spec: the kernel \<^verbatim>\<open>implementation::scale<backend, Matrix>::compute\<close>
  (Scale.h is not among the sources), "computes \<open>B := alpha*A\<close>".\<close>

definition scale_kernel :: "('s::comm_ring_1 matrix, 's, backend_error) scale_compute" where
  "scale_kernel A B alpha =
     (if shape A = shape B then Inr (map (map (\<lambda>a. alpha * a)) A) else Inl ShapeMismatch)"

text \<open>Modelled from the spec: the kernel
  \<^verbatim>\<open>implementation::elementwise_product<backend, Matrix>::compute\<close> (ElementwiseProduct.h is
  not among the sources), "coefficient-wise multiplication. Requires A, B, C of identical
  shape; mismatch is a backend-reported error".\<close>

definition elementwise_product_kernel ::
  "('s::comm_ring_1 matrix, backend_error) elementwise_product_compute" where
  "elementwise_product_kernel A B C =
     (if shape A = shape B \<and> shape B = shape C
      then Inr (map2 (map2 (\<lambda>a b. a * b)) A B)
      else Inl ShapeMismatch)"

text \<open>Modelled from the spec: the container with "\<open>result[i,j] = m[i,j]^2\<close> for all
  coefficients".\<close>

definition squares :: "'s::comm_ring_1 matrix \<Rightarrow> 's matrix" where
  "squares m = map (map (\<lambda>x. x * x)) m"

text \<open>Modelled from the spec: the two members of
  \<^verbatim>\<open>implementation::elementwise_square<backend, Matrix>\<close> (ElementwiseSquare.h is not among
  the sources), "both computing \<open>result[i,j] = m[i,j]^2\<close> for all coefficients": the
  allocating form "returns a newly constructed container", the other "writes into a
  caller-supplied result container of possibly different concrete type than m". That the
  second fails on a result of another shape follows what the spec says of the other
  modules.\<close>

definition elementwise_square_kernel ::
  "('t, 's::comm_ring_1 matrix, backend_error) elementwise_square_impl" where
  "elementwise_square_kernel =
     \<lparr> compute_returning = (\<lambda>m. Inr (squares m)),
       compute_into = (\<lambda>ResultMatrix m result.
          if shape result = shape m then Inr (squares m) else Inl ShapeMismatch) \<rparr>"

text \<open>Modelled from the spec: the transpose that \<open>op\<close> applies "when its flag is set".\<close>

definition transposed :: "'s matrix \<Rightarrow> 's matrix" where
  "transposed M = tabulate (cols M) (rows M) (\<lambda>j i. M ! i ! j)"

definition op :: "bool \<Rightarrow> 's matrix \<Rightarrow> 's matrix" where
  "op flag M = (if flag then transposed M else M)"

text \<open>Modelled from the spec: the matrix product \<open>op(A) * op(B)\<close> of two containers.\<close>

definition product :: "'s::comm_ring_1 matrix \<Rightarrow> 's matrix \<Rightarrow> 's matrix" where
  "product A B =
     tabulate (rows A) (cols B) (\<lambda>i j. \<Sum>k\<leftarrow>[0..<cols A]. A ! i ! k * B ! k ! j)"

text \<open>Modelled from the spec: the kernel
  \<^verbatim>\<open>implementation::matrix_product<backend, Matrix>::compute\<close> (MatrixProduct.h is not among
  the sources), "computes \<open>C := op(A) * op(B)\<close> where op applies a transpose when its flag is
  set. When overwrite is true, C is replaced; when false, the product is added into the
  existing contents of C".\<close>

definition matrix_product_kernel ::
  "('s::comm_ring_1 matrix, backend_error) matrix_product_compute" where
  "matrix_product_kernel A B C transpose_A transpose_B overwrite =
     (let P = product (op transpose_A A) (op transpose_B B) in
      if cols (op transpose_A A) = rows (op transpose_B B) \<and> shape C = shape P
      then Inr (if overwrite then P else matrix_sum C P)
      else Inl ShapeMismatch)"

text \<open>Modelled from the spec: the image with its boundary "implicitly zero-padded".\<close>

definition padded :: "'s::zero matrix \<Rightarrow> int \<Rightarrow> int \<Rightarrow> 's" where
  "padded X i j =
     (if 0 \<le> i \<and> i < int (length X) \<and> 0 \<le> j \<and> j < int (length (X ! nat i))
      then X ! nat i ! nat j else 0)"

text \<open>Modelled from the spec: one coefficient of "the 2D convolution (or, if flip=true,
  cross-correlation: convolution with the kernel W reflected along both axes)" of the
  padded image, the window centred on the "center coefficient" of \<open>W\<close>.\<close>

definition window_sum ::
  "bool \<Rightarrow> 's::comm_ring_1 matrix \<Rightarrow> 's matrix \<Rightarrow> nat \<Rightarrow> nat \<Rightarrow> 's" where
  "window_sum flip X W i j =
     (\<Sum>a\<leftarrow>[0..<rows W]. \<Sum>b\<leftarrow>[0..<cols W].
        W ! a ! b *
        (if flip
         then padded X (int i - int (rows W div 2) + int a) (int j - int (cols W div 2) + int b)
         else padded X (int i + int (rows W div 2) - int a) (int j + int (cols W div 2) - int b)))"

text \<open>Modelled from the spec: the kernel \<^verbatim>\<open>implementation::convolve<backend, Matrix>::compute\<close>
  (Convolve.h is not among the sources). "W's two dimensions must each be odd; violating
  this is a backend-reported precondition failure. Output Y has the same shape as X at unit
  stride. overwrite follows the same accumulate/replace semantics. stride_x/stride_y
  subsample the output grid."\<close>

definition convolve_kernel :: "('s::comm_ring_1 matrix, backend_error) convolve_compute" where
  "convolve_kernel X W Y flip overwrite stride_x stride_y =
     (if even (rows W) \<or> even (cols W) then Inl EvenKernel
      else if sint stride_x < 1 \<or> sint stride_y < 1 then Inl BadStride
      else
        let sx = unat stride_x; sy = unat stride_y;
            out = tabulate ((rows X + sy - 1) div sy) ((cols X + sx - 1) div sx)
                    (\<lambda>i j. window_sum flip X W (i * sy) (j * sx))
        in if shape Y = shape out
           then Inr (if overwrite then out else matrix_sum Y out)
           else Inl ShapeMismatch)"

subsection \<open>Example builds\<close>

text \<open>
  A build with the extended backend, where the vectorized backend is the default and both
  it and the reference backend implement every operation for dense matrices; and a build
  without \<^verbatim>\<open>HAVE_LINALG_LIB\<close>, where only the reference \<open>add\<close> exists. The theorems below
  are instantiated at them.
\<close>

definition extended_build ::
  "(Backend, container_class, int matrix, int, backend_error) build" where
  "extended_build =
     \<lparr> HAVE_LINALG_LIB = True,
       linalg_traits_Core_backend = VectorizedCPU,
       implementation_add =
         [(VectorizedCPU, DenseMatrix) \<mapsto> add_kernel, (Reference, DenseMatrix) \<mapsto> add_kernel],
       implementation_matrix_product =
         [(VectorizedCPU, DenseMatrix) \<mapsto> matrix_product_kernel,
          (Reference, DenseMatrix) \<mapsto> matrix_product_kernel],
       implementation_scale =
         [(VectorizedCPU, DenseMatrix) \<mapsto> scale_kernel, (Reference, DenseMatrix) \<mapsto> scale_kernel],
       implementation_elementwise_product =
         [(VectorizedCPU, DenseMatrix) \<mapsto> elementwise_product_kernel,
          (Reference, DenseMatrix) \<mapsto> elementwise_product_kernel],
       implementation_elementwise_square =
         [(VectorizedCPU, DenseMatrix) \<mapsto> elementwise_square_kernel,
          (Reference, DenseMatrix) \<mapsto> elementwise_square_kernel],
       implementation_convolve =
         [(VectorizedCPU, DenseMatrix) \<mapsto> convolve_kernel,
          (Reference, DenseMatrix) \<mapsto> convolve_kernel] \<rparr>"

definition plain_build ::
  "(Backend, container_class, int matrix, int, backend_error) build" where
  "plain_build =
     \<lparr> HAVE_LINALG_LIB = False,
       linalg_traits_Core_backend = Reference,
       implementation_add = [(Reference, DenseMatrix) \<mapsto> add_kernel],
       implementation_matrix_product = Map.empty,
       implementation_scale = Map.empty,
       implementation_elementwise_product = Map.empty,
       implementation_elementwise_square = Map.empty,
       implementation_convolve = Map.empty \<rparr>"

text \<open>
  A build for observing which specialization a call reaches: every backend and container
  class has a specialization of every operation, the containers hold no data, and each
  kernel writes the key it is registered under into its output.
\<close>

definition probe_build ::
  "(Backend, container_class, (Backend \<times> container_class) option, int, backend_error) build" where
  "probe_build =
     \<lparr> HAVE_LINALG_LIB = True,
       linalg_traits_Core_backend = VectorizedCPU,
       implementation_add = (\<lambda>key. Some (\<lambda>A B C alpha beta. Inr (Some key))),
       implementation_matrix_product =
         (\<lambda>key. Some (\<lambda>A B C transpose_A transpose_B overwrite. Inr (Some key))),
       implementation_scale = (\<lambda>key. Some (\<lambda>A B alpha. Inr (Some key))),
       implementation_elementwise_product = (\<lambda>key. Some (\<lambda>A B C. Inr (Some key))),
       implementation_elementwise_square =
         (\<lambda>key. Some \<lparr> compute_returning = (\<lambda>m. Inr (Some key)),
                         compute_into = (\<lambda>ResultMatrix m result. Inr (Some key)) \<rparr>),
       implementation_convolve =
         (\<lambda>key. Some (\<lambda>X W Y flip overwrite stride_x stride_y. Inr (Some key))) \<rparr>"

section \<open>Properties of the dispatch functions\<close>

subsection \<open>Auxiliary facts\<close>

lemmas dispatch_defs =
  add_def matrix_product_def subtract_def scale_def elementwise_product_def
  elementwise_square_def elementwise_square_result_def convolve_def

lemma default_backend:
  "backend_or_default bld None = backend_or_default bld (Some (linalg_traits_Core_backend bld))"
  by (simp add: backend_or_default_def)

lemma explicit_backend: "backend_or_default bld (Some b) = b"
  by (simp add: backend_or_default_def)

lemma specialization_Some: "table (b, M) = Some k \<Longrightarrow> specialization table f b M = Inr k"
  by (simp add: specialization_def)

lemma specialization_None:
  "table (b, M) = None \<Longrightarrow> specialization table f b M = Inl (NoSpecialization f b M)"
  by (simp add: specialization_def)

lemma probe_tables:
  "HAVE_LINALG_LIB probe_build"
  "linalg_traits_Core_backend probe_build = VectorizedCPU"
  "implementation_add probe_build key = Some (\<lambda>A B C alpha beta. Inr (Some key))"
  "implementation_matrix_product probe_build key =
     Some (\<lambda>A B C transpose_A transpose_B overwrite. Inr (Some key))"
  "implementation_scale probe_build key = Some (\<lambda>A B alpha. Inr (Some key))"
  "implementation_elementwise_product probe_build key = Some (\<lambda>A B C. Inr (Some key))"
  "implementation_elementwise_square probe_build key =
     Some \<lparr> compute_returning = (\<lambda>m. Inr (Some key)),
            compute_into = (\<lambda>ResultMatrix m result. Inr (Some key)) \<rparr>"
  "implementation_convolve probe_build key =
     Some (\<lambda>X W Y flip overwrite stride_x stride_y. Inr (Some key))"
  by (simp_all add: probe_build_def)

lemma extended_tables:
  "HAVE_LINALG_LIB extended_build"
  "linalg_traits_Core_backend extended_build = VectorizedCPU"
  "implementation_add extended_build (Accelerator, DenseMatrix) = None"
  "implementation_matrix_product extended_build (Accelerator, DenseMatrix) = None"
  "implementation_scale extended_build (Accelerator, DenseMatrix) = None"
  "implementation_elementwise_product extended_build (Accelerator, DenseMatrix) = None"
  "implementation_elementwise_square extended_build (Accelerator, DenseMatrix) = None"
  "implementation_convolve extended_build (Accelerator, DenseMatrix) = None"
  "implementation_add extended_build (VectorizedCPU, DenseMatrix) = Some add_kernel"
  "implementation_matrix_product extended_build (VectorizedCPU, DenseMatrix) =
     Some matrix_product_kernel"
  "implementation_scale extended_build (VectorizedCPU, DenseMatrix) = Some scale_kernel"
  "implementation_elementwise_product extended_build (VectorizedCPU, DenseMatrix) =
     Some elementwise_product_kernel"
  "implementation_elementwise_square extended_build (VectorizedCPU, DenseMatrix) =
     Some elementwise_square_kernel"
  "implementation_convolve extended_build (VectorizedCPU, DenseMatrix) = Some convolve_kernel"
  by (simp_all add: extended_build_def)

lemma available_passed_through: "available (passed_through r)"
  by (cases r) (simp_all add: passed_through_def available_def)

lemma available_specialization:
  "available (case specialization table f b M of
                Inl err \<Rightarrow> Inl err | Inr k \<Rightarrow> passed_through (g k))"
proof (cases "table (b, M)")
  case None
  then show ?thesis by (simp add: specialization_def available_def)
next
  case (Some k)
  then show ?thesis by (simp add: specialization_def available_passed_through)
qed

lemma available_NoMatchingFunction: "available (Inl (NoMatchingFunction f))"
  by (simp add: available_def)

lemma available_Undeclared: "\<not> available (Inl (Undeclared f))"
  by (simp add: available_def)

lemmas available_simps =
  available_specialization available_NoMatchingFunction available_Undeclared

lemma available_add: "available (add bld backend Matrix A B C coefficients)"
  by (cases "alpha_beta coefficients") (auto simp: add_def available_simps)

lemma available_subtract:
  "available (subtract bld backend Matrix A B C coefficients) = HAVE_LINALG_LIB bld"
  by (cases "alpha_beta coefficients") (auto simp: subtract_def available_simps)

lemma available_matrix_product:
  "available (matrix_product bld backend Matrix A B C flags) = HAVE_LINALG_LIB bld"
  by (cases "transpose_overwrite flags") (auto simp: matrix_product_def available_simps)

lemma available_scale:
  "available (scale bld backend Matrix A B coefficients) = HAVE_LINALG_LIB bld"
  by (cases "only_alpha coefficients") (auto simp: scale_def available_simps)

lemma available_elementwise_product:
  "available (elementwise_product bld backend Matrix A B C) = HAVE_LINALG_LIB bld"
  by (simp add: elementwise_product_def available_simps)

lemma available_elementwise_square:
  "available (elementwise_square bld backend Matrix m) = HAVE_LINALG_LIB bld"
  by (simp add: elementwise_square_def available_simps)

lemma available_elementwise_square_result:
  "available (elementwise_square_result bld backend Matrix ResultMatrix m result) =
     HAVE_LINALG_LIB bld"
  by (simp add: elementwise_square_result_def available_simps)

lemma available_convolve:
  "available (convolve bld backend Matrix X W Y arguments) = HAVE_LINALG_LIB bld"
  by (cases "flip_overwrite_strides arguments") (auto simp: convolve_def available_simps)

lemma rejected_Inl: "rejected_at_build_time (Inl e) = build_time e"
  by (simp add: rejected_at_build_time_def)

lemma rejected_add:
  "implementation_add bld (backend_or_default bld backend, Matrix) = None \<Longrightarrow>
   rejected_at_build_time (add bld backend Matrix A B C coefficients)"
  by (cases "alpha_beta coefficients") (auto simp: add_def specialization_None rejected_Inl)

lemma rejected_matrix_product:
  "implementation_matrix_product bld (backend_or_default bld backend, Matrix) = None \<Longrightarrow>
   rejected_at_build_time (matrix_product bld backend Matrix A B C flags)"
  by (cases "transpose_overwrite flags")
    (auto simp: matrix_product_def specialization_None rejected_Inl)

lemma rejected_subtract:
  "implementation_add bld (backend_or_default bld backend, Matrix) = None \<Longrightarrow>
   rejected_at_build_time (subtract bld backend Matrix A B C coefficients)"
  by (cases "alpha_beta coefficients") (auto simp: subtract_def specialization_None rejected_Inl)

lemma rejected_scale:
  "implementation_scale bld (backend_or_default bld backend, Matrix) = None \<Longrightarrow>
   rejected_at_build_time (scale bld backend Matrix A B coefficients)"
  by (cases "only_alpha coefficients") (auto simp: scale_def specialization_None rejected_Inl)

lemma rejected_elementwise_product:
  "implementation_elementwise_product bld (backend_or_default bld backend, Matrix) = None \<Longrightarrow>
   rejected_at_build_time (elementwise_product bld backend Matrix A B C)"
  by (simp add: elementwise_product_def specialization_None rejected_Inl)

lemma rejected_elementwise_square:
  "implementation_elementwise_square bld (backend_or_default bld backend, Matrix) = None \<Longrightarrow>
   rejected_at_build_time (elementwise_square bld backend Matrix m)"
  by (simp add: elementwise_square_def specialization_None rejected_Inl)

lemma rejected_elementwise_square_result:
  "implementation_elementwise_square bld (backend_or_default bld backend, Matrix) = None \<Longrightarrow>
   rejected_at_build_time (elementwise_square_result bld backend Matrix ResultMatrix m result)"
  by (simp add: elementwise_square_result_def specialization_None rejected_Inl)

lemma rejected_convolve:
  "implementation_convolve bld (backend_or_default bld backend, Matrix) = None \<Longrightarrow>
   rejected_at_build_time (convolve bld backend Matrix X W Y arguments)"
  by (cases "flip_overwrite_strides arguments")
    (auto simp: convolve_def specialization_None rejected_Inl)

subsection \<open>Subtraction is addition with the second coefficient negated\<close>

text \<open>
  Claim C1. In a build that declares \<open>subtract\<close> (it stands inside
  \<^verbatim>\<open>#ifdef HAVE_LINALG_LIB\<close>), for all containers \<open>A\<close>, \<open>B\<close>, \<open>C\<close> and scalars \<open>alpha\<close>,
  \<open>beta\<close>, \<open>subtract(A, B, C, alpha, beta)\<close> gives exactly the result of
  \<open>add(A, B, C, alpha, -beta)\<close>, also when coefficients are left out, and for every backend
  and container class, whatever kernel is registered: \<open>subtract\<close> has no kernel of its own,
  it runs \<^verbatim>\<open>implementation::add<backend, Matrix>::compute\<close> with the second coefficient
  negated. The scalars are those of any ring, so the statement covers machine integers that
  wrap around as well as exact numbers.
\<close>

theorem subtract_is_add_with_negated_beta:
  assumes "HAVE_LINALG_LIB bld"
  shows "subtract bld backend Matrix A B C [alpha, beta] =
           add bld backend Matrix A B C [alpha, - beta]
       \<and> subtract bld backend Matrix A B C [alpha] = add bld backend Matrix A B C [alpha, - 1]
       \<and> subtract bld backend Matrix A B C [] = add bld backend Matrix A B C [1, - 1]
       \<and> (\<forall>compute.
            implementation_add bld (backend_or_default bld backend, Matrix) = Some compute \<longrightarrow>
            subtract bld backend Matrix A B C [alpha, beta] =
              passed_through (compute A B C alpha (- beta)))"
  using assms by (simp add: subtract_def add_def specialization_def split: sum.splits)

theorem subtract_is_add_with_negated_beta_witness:
  "HAVE_LINALG_LIB extended_build
   \<and> implementation_add extended_build
        (backend_or_default extended_build None, DenseMatrix) = Some add_kernel
   \<and> subtract extended_build None DenseMatrix [[1, 2], [3, 4]] [[5, 6], [7, 8]]
        [[0, 0], [0, 0]] [1, 1] = Inr [[- 4, - 4], [- 4, - 4]]
   \<and> add extended_build None DenseMatrix [[1, 2], [3, 4]] [[5, 6], [7, 8]]
        [[0, 0], [0, 0]] [1, - 1] = Inr [[- 4, - 4], [- 4, - 4]]"
proof -
  have flag: "HAVE_LINALG_LIB extended_build"
    by (simp add: extended_build_def)
  have entry: "implementation_add extended_build
        (backend_or_default extended_build None, DenseMatrix) = Some add_kernel"
    by (simp add: extended_build_def backend_or_default_def)
  have run: "add extended_build None DenseMatrix [[1, 2], [3, 4]] [[5, 6], [7, 8]]
        [[0, 0], [0, 0]] [1, - 1] = Inr [[- 4, - 4], [- 4, - 4]]"
    by (simp add: add_def specialization_def entry add_kernel_def shape_def passed_through_def)
  from subtract_is_add_with_negated_beta [OF flag, of None DenseMatrix
      "[[1, 2], [3, 4]]" "[[5, 6], [7, 8]]" "[[0, 0], [0, 0]]" 1 1]
  show ?thesis using flag entry run by simp
qed

subsection \<open>The feature gate\<close>

text \<open>
  Claim C2, as amended. \<open>add\<close> is declared in every build. Each of \<open>subtract\<close>,
  \<open>matrix_product\<close>, \<open>scale\<close>, \<open>elementwise_product\<close>, both signatures of
  \<open>elementwise_square\<close> and \<open>convolve\<close> is declared exactly when \<^verbatim>\<open>HAVE_LINALG_LIB\<close> is
  defined: \<open>subtract\<close> stands inside the \<^verbatim>\<open>#ifdef\<close> with the others, although it needs only
  the kernel of \<open>add\<close>.
\<close>

theorem feature_gate:
  "available (add bld backend Matrix A B C coefficients)
   \<and> available (subtract bld backend Matrix A B C coefficients) = HAVE_LINALG_LIB bld
   \<and> available (matrix_product bld backend Matrix A B C flags) = HAVE_LINALG_LIB bld
   \<and> available (scale bld backend Matrix A B coefficients) = HAVE_LINALG_LIB bld
   \<and> available (elementwise_product bld backend Matrix A B C) = HAVE_LINALG_LIB bld
   \<and> available (elementwise_square bld backend Matrix m) = HAVE_LINALG_LIB bld
   \<and> available (elementwise_square_result bld backend Matrix ResultMatrix m result) =
       HAVE_LINALG_LIB bld
   \<and> available (convolve bld backend Matrix X W Y arguments) = HAVE_LINALG_LIB bld"
  by (simp only: available_add available_subtract available_matrix_product available_scale
      available_elementwise_product available_elementwise_square
      available_elementwise_square_result available_convolve simp_thms)

theorem feature_gate_witness:
  "\<not> HAVE_LINALG_LIB plain_build
   \<and> available (add plain_build None DenseMatrix [[1, 2]] [[3, 4]] [[0, 0]] [])
   \<and> \<not> available (subtract plain_build None DenseMatrix [[1, 2]] [[3, 4]] [[0, 0]] [])
   \<and> \<not> available (matrix_product plain_build None DenseMatrix [[1, 2]] [[3, 4]] [[0, 0]] [])
   \<and> \<not> available (scale plain_build None DenseMatrix [[1, 2]] [[3, 4]] [])
   \<and> \<not> available (elementwise_product plain_build None DenseMatrix [[1, 2]] [[3, 4]] [[0, 0]])
   \<and> \<not> available (elementwise_square plain_build None DenseMatrix [[1, 2]])
   \<and> \<not> available (elementwise_square_result plain_build None DenseMatrix DenseMatrix
          [[1, 2]] [[0, 0]])
   \<and> \<not> available (convolve plain_build None DenseMatrix [[1, 2]] [[3, 4]] [[0, 0]] [])
   \<and> HAVE_LINALG_LIB extended_build
   \<and> available (subtract extended_build None DenseMatrix [[1, 2]] [[3, 4]] [[0, 0]] [])
   \<and> available (convolve extended_build None DenseMatrix [[1, 2]] [[3, 4]] [[0, 0]] [])"
proof -
  have off: "\<not> HAVE_LINALG_LIB plain_build"
    by (simp add: plain_build_def)
  have on: "HAVE_LINALG_LIB extended_build"
    by (simp add: extended_build_def)
  from feature_gate [of plain_build None DenseMatrix "[[1, 2]]" "[[3, 4]]" "[[0, 0]]" "[]"
      "[]" "[[1, 2]]" DenseMatrix "[[0, 0]]" "[[1, 2]]" "[[3, 4]]" "[[0, 0]]" "[]"]
    feature_gate [of extended_build None DenseMatrix "[[1, 2]]" "[[3, 4]]" "[[0, 0]]" "[]"
      "[]" "[[1, 2]]" DenseMatrix "[[0, 0]]" "[[1, 2]]" "[[3, 4]]" "[[0, 0]]" "[]"]
  show ?thesis using off on by simp
qed

text \<open>
  Claim C2 as stated fails: in a build without \<^verbatim>\<open>HAVE_LINALG_LIB\<close>, \<open>add\<close> with a negated
  second coefficient computes the difference, and \<open>subtract\<close> is not declared.
\<close>

theorem subtract_withheld_counterexample:
  "\<not> HAVE_LINALG_LIB plain_build
   \<and> add plain_build None DenseMatrix [[1, 2], [3, 4]] [[5, 6], [7, 8]] [[0, 0], [0, 0]]
        [1, - 1] = Inr [[- 4, - 4], [- 4, - 4]]
   \<and> subtract plain_build None DenseMatrix [[1, 2], [3, 4]] [[5, 6], [7, 8]] [[0, 0], [0, 0]]
        [1, 1] = Inl (Undeclared Subtract)
   \<and> \<not> available (subtract plain_build None DenseMatrix [[1, 2], [3, 4]] [[5, 6], [7, 8]]
        [[0, 0], [0, 0]] [1, 1])"
  by (simp add: plain_build_def add_def subtract_def specialization_def backend_or_default_def
      add_kernel_def shape_def passed_through_def available_def)

subsection \<open>The backend of a call\<close>

text \<open>
  Claim C3. For each of the eight function templates, a call that names no backend is the
  call that names \<^verbatim>\<open>linalg_traits<Core>::backend\<close>, a value of the build alone; and a call
  that names the backend \<open>b\<close> runs the \<^verbatim>\<open>compute\<close> of the specialization registered for \<open>b\<close>
  and the container class, whatever the default is.
\<close>

theorem backend_selection:
  "add bld None Matrix A B C coefficients =
     add bld (Some (linalg_traits_Core_backend bld)) Matrix A B C coefficients
   \<and> matrix_product bld None Matrix A B C flags =
       matrix_product bld (Some (linalg_traits_Core_backend bld)) Matrix A B C flags
   \<and> subtract bld None Matrix A B C coefficients =
       subtract bld (Some (linalg_traits_Core_backend bld)) Matrix A B C coefficients
   \<and> scale bld None Matrix A B coefficients =
       scale bld (Some (linalg_traits_Core_backend bld)) Matrix A B coefficients
   \<and> elementwise_product bld None Matrix A B C =
       elementwise_product bld (Some (linalg_traits_Core_backend bld)) Matrix A B C
   \<and> elementwise_square bld None Matrix m =
       elementwise_square bld (Some (linalg_traits_Core_backend bld)) Matrix m
   \<and> elementwise_square_result bld None Matrix ResultMatrix m result =
       elementwise_square_result bld (Some (linalg_traits_Core_backend bld)) Matrix
         ResultMatrix m result
   \<and> convolve bld None Matrix X W Y arguments =
       convolve bld (Some (linalg_traits_Core_backend bld)) Matrix X W Y arguments
   \<and> (\<forall>k. implementation_add bld (b, Matrix) = Some k \<longrightarrow>
         add bld (Some b) Matrix A B C [alpha, beta] = passed_through (k A B C alpha beta))
   \<and> (HAVE_LINALG_LIB bld \<longrightarrow>
        (\<forall>k. implementation_matrix_product bld (b, Matrix) = Some k \<longrightarrow>
           matrix_product bld (Some b) Matrix A B C [transpose_A, transpose_B, overwrite] =
             passed_through (k A B C transpose_A transpose_B overwrite))
      \<and> (\<forall>k. implementation_add bld (b, Matrix) = Some k \<longrightarrow>
           subtract bld (Some b) Matrix A B C [alpha, beta] =
             passed_through (k A B C alpha (- beta)))
      \<and> (\<forall>k. implementation_scale bld (b, Matrix) = Some k \<longrightarrow>
           scale bld (Some b) Matrix A B [alpha] = passed_through (k A B alpha))
      \<and> (\<forall>k. implementation_elementwise_product bld (b, Matrix) = Some k \<longrightarrow>
           elementwise_product bld (Some b) Matrix A B C = passed_through (k A B C))
      \<and> (\<forall>k. implementation_elementwise_square bld (b, Matrix) = Some k \<longrightarrow>
           elementwise_square bld (Some b) Matrix m = passed_through (compute_returning k m)
           \<and> elementwise_square_result bld (Some b) Matrix ResultMatrix m result =
               passed_through (compute_into k ResultMatrix m result))
      \<and> (\<forall>k. implementation_convolve bld (b, Matrix) = Some k \<longrightarrow>
           convolve bld (Some b) Matrix X W Y
             [Inl flip, Inl overwrite, Inr stride_x, Inr stride_y] =
             passed_through (k X W Y flip overwrite stride_x stride_y)))"
proof -
  have omitted:
    "add bld None Matrix A B C coefficients =
       add bld (Some (linalg_traits_Core_backend bld)) Matrix A B C coefficients"
    "matrix_product bld None Matrix A B C flags =
       matrix_product bld (Some (linalg_traits_Core_backend bld)) Matrix A B C flags"
    "subtract bld None Matrix A B C coefficients =
       subtract bld (Some (linalg_traits_Core_backend bld)) Matrix A B C coefficients"
    "scale bld None Matrix A B coefficients =
       scale bld (Some (linalg_traits_Core_backend bld)) Matrix A B coefficients"
    "elementwise_product bld None Matrix A B C =
       elementwise_product bld (Some (linalg_traits_Core_backend bld)) Matrix A B C"
    "elementwise_square bld None Matrix m =
       elementwise_square bld (Some (linalg_traits_Core_backend bld)) Matrix m"
    "elementwise_square_result bld None Matrix ResultMatrix m result =
       elementwise_square_result bld (Some (linalg_traits_Core_backend bld)) Matrix
         ResultMatrix m result"
    "convolve bld None Matrix X W Y arguments =
       convolve bld (Some (linalg_traits_Core_backend bld)) Matrix X W Y arguments"
    unfolding dispatch_defs default_backend by (rule refl)+
  have explicit_add:
    "\<forall>k. implementation_add bld (b, Matrix) = Some k \<longrightarrow>
         add bld (Some b) Matrix A B C [alpha, beta] = passed_through (k A B C alpha beta)"
    by (simp add: add_def explicit_backend specialization_Some)
  have explicit_gated: "HAVE_LINALG_LIB bld \<longrightarrow>
        (\<forall>k. implementation_matrix_product bld (b, Matrix) = Some k \<longrightarrow>
           matrix_product bld (Some b) Matrix A B C [transpose_A, transpose_B, overwrite] =
             passed_through (k A B C transpose_A transpose_B overwrite))
      \<and> (\<forall>k. implementation_add bld (b, Matrix) = Some k \<longrightarrow>
           subtract bld (Some b) Matrix A B C [alpha, beta] =
             passed_through (k A B C alpha (- beta)))
      \<and> (\<forall>k. implementation_scale bld (b, Matrix) = Some k \<longrightarrow>
           scale bld (Some b) Matrix A B [alpha] = passed_through (k A B alpha))
      \<and> (\<forall>k. implementation_elementwise_product bld (b, Matrix) = Some k \<longrightarrow>
           elementwise_product bld (Some b) Matrix A B C = passed_through (k A B C))
      \<and> (\<forall>k. implementation_elementwise_square bld (b, Matrix) = Some k \<longrightarrow>
           elementwise_square bld (Some b) Matrix m = passed_through (compute_returning k m)
           \<and> elementwise_square_result bld (Some b) Matrix ResultMatrix m result =
               passed_through (compute_into k ResultMatrix m result))
      \<and> (\<forall>k. implementation_convolve bld (b, Matrix) = Some k \<longrightarrow>
           convolve bld (Some b) Matrix X W Y
             [Inl flip, Inl overwrite, Inr stride_x, Inr stride_y] =
             passed_through (k X W Y flip overwrite stride_x stride_y))"
    by (simp add: dispatch_defs explicit_backend specialization_Some)
  from omitted explicit_add explicit_gated show ?thesis by blast
qed

theorem backend_selection_witness:
  "HAVE_LINALG_LIB probe_build
   \<and> linalg_traits_Core_backend probe_build = VectorizedCPU
   \<and> add probe_build None DenseMatrix None None None [] = Inr (Some (VectorizedCPU, DenseMatrix))
   \<and> add probe_build (Some Accelerator) DenseMatrix None None None [1, 1] =
       Inr (Some (Accelerator, DenseMatrix))
   \<and> matrix_product probe_build None DenseMatrix None None None [] =
       Inr (Some (VectorizedCPU, DenseMatrix))
   \<and> matrix_product probe_build (Some Accelerator) DenseMatrix None None None
        [False, False, True] = Inr (Some (Accelerator, DenseMatrix))
   \<and> subtract probe_build None DenseMatrix None None None [] =
       Inr (Some (VectorizedCPU, DenseMatrix))
   \<and> subtract probe_build (Some Accelerator) DenseMatrix None None None [1, 1] =
       Inr (Some (Accelerator, DenseMatrix))
   \<and> scale probe_build None DenseMatrix None None [1] = Inr (Some (VectorizedCPU, DenseMatrix))
   \<and> scale probe_build (Some Accelerator) DenseMatrix None None [1] =
       Inr (Some (Accelerator, DenseMatrix))
   \<and> elementwise_product probe_build None DenseMatrix None None None =
       Inr (Some (VectorizedCPU, DenseMatrix))
   \<and> elementwise_product probe_build (Some Accelerator) DenseMatrix None None None =
       Inr (Some (Accelerator, DenseMatrix))
   \<and> elementwise_square probe_build None DenseMatrix None =
       Inr (Some (VectorizedCPU, DenseMatrix))
   \<and> elementwise_square probe_build (Some Accelerator) DenseMatrix None =
       Inr (Some (Accelerator, DenseMatrix))
   \<and> elementwise_square_result probe_build None DenseMatrix DenseVector None None =
       Inr (Some (VectorizedCPU, DenseMatrix))
   \<and> elementwise_square_result probe_build (Some Accelerator) DenseMatrix DenseVector
        None None = Inr (Some (Accelerator, DenseMatrix))
   \<and> convolve probe_build None DenseMatrix None None None [] =
       Inr (Some (VectorizedCPU, DenseMatrix))
   \<and> convolve probe_build (Some Accelerator) DenseMatrix None None None
        [Inl False, Inl True, Inr 1, Inr 1] = Inr (Some (Accelerator, DenseMatrix))"
proof -
  note sel = backend_selection [where bld = probe_build and b = Accelerator
      and Matrix = DenseMatrix and ResultMatrix = DenseVector
      and A = None and B = None and C = None and m = None and result = None
      and X = None and W = None and Y = None
      and coefficients = "[]" and flags = "[]" and arguments = "[]"
      and alpha = 1 and beta = 1 and transpose_A = False and transpose_B = False
      and overwrite = True and flip = False and stride_x = 1 and stride_y = 1]
  have default:
    "add probe_build (Some VectorizedCPU) DenseMatrix None None None [] =
       Inr (Some (VectorizedCPU, DenseMatrix))"
    "matrix_product probe_build (Some VectorizedCPU) DenseMatrix None None None [] =
       Inr (Some (VectorizedCPU, DenseMatrix))"
    "subtract probe_build (Some VectorizedCPU) DenseMatrix None None None [] =
       Inr (Some (VectorizedCPU, DenseMatrix))"
    "scale probe_build None DenseMatrix None None [1] = Inr (Some (VectorizedCPU, DenseMatrix))"
    "elementwise_product probe_build (Some VectorizedCPU) DenseMatrix None None None =
       Inr (Some (VectorizedCPU, DenseMatrix))"
    "elementwise_square probe_build (Some VectorizedCPU) DenseMatrix None =
       Inr (Some (VectorizedCPU, DenseMatrix))"
    "elementwise_square_result probe_build (Some VectorizedCPU) DenseMatrix DenseVector
       None None = Inr (Some (VectorizedCPU, DenseMatrix))"
    "convolve probe_build (Some VectorizedCPU) DenseMatrix None None None [] =
       Inr (Some (VectorizedCPU, DenseMatrix))"
    by (simp_all add: dispatch_defs probe_tables backend_or_default_def specialization_def
        passed_through_def)
  from sel show ?thesis
    using default by (simp add: probe_tables passed_through_def)
qed

subsection \<open>Unregistered specializations\<close>

text \<open>
  Claim C4. When the \<^verbatim>\<open>implementation\<close> struct a function template names has no
  specialization for the requested backend and container class, the call is rejected at
  build time, for every argument and whatever other backends are registered: the result is
  an error of the build, never the result or the runtime error of a kernel. For \<open>add\<close> with
  both coefficients the error names the requested backend.
\<close>

theorem unregistered_specialization_rejected:
  "(implementation_add bld (backend_or_default bld backend, Matrix) = None \<longrightarrow>
      rejected_at_build_time (add bld backend Matrix A B C coefficients)
      \<and> rejected_at_build_time (subtract bld backend Matrix A B C coefficients)
      \<and> add bld backend Matrix A B C [alpha, beta] =
          Inl (NoSpecialization Add (backend_or_default bld backend) Matrix))
   \<and> (implementation_matrix_product bld (backend_or_default bld backend, Matrix) = None \<longrightarrow>
      rejected_at_build_time (matrix_product bld backend Matrix A B C flags))
   \<and> (implementation_scale bld (backend_or_default bld backend, Matrix) = None \<longrightarrow>
      rejected_at_build_time (scale bld backend Matrix A B coefficients))
   \<and> (implementation_elementwise_product bld (backend_or_default bld backend, Matrix) = None \<longrightarrow>
      rejected_at_build_time (elementwise_product bld backend Matrix A B C))
   \<and> (implementation_elementwise_square bld (backend_or_default bld backend, Matrix) = None \<longrightarrow>
      rejected_at_build_time (elementwise_square bld backend Matrix m)
      \<and> rejected_at_build_time
          (elementwise_square_result bld backend Matrix ResultMatrix m result))
   \<and> (implementation_convolve bld (backend_or_default bld backend, Matrix) = None \<longrightarrow>
      rejected_at_build_time (convolve bld backend Matrix X W Y arguments))"
proof -
  have "implementation_add bld (backend_or_default bld backend, Matrix) = None \<longrightarrow>
      add bld backend Matrix A B C [alpha, beta] =
          Inl (NoSpecialization Add (backend_or_default bld backend) Matrix)"
    by (simp add: add_def specialization_None)
  then show ?thesis
    by (simp add: rejected_add rejected_matrix_product rejected_subtract rejected_scale
      rejected_elementwise_product rejected_elementwise_square
      rejected_elementwise_square_result rejected_convolve)
qed

theorem unregistered_specialization_rejected_witness:
  "implementation_add extended_build
      (backend_or_default extended_build (Some Accelerator), DenseMatrix) = None
   \<and> implementation_matrix_product extended_build
      (backend_or_default extended_build (Some Accelerator), DenseMatrix) = None
   \<and> implementation_scale extended_build
      (backend_or_default extended_build (Some Accelerator), DenseMatrix) = None
   \<and> implementation_elementwise_product extended_build
      (backend_or_default extended_build (Some Accelerator), DenseMatrix) = None
   \<and> implementation_elementwise_square extended_build
      (backend_or_default extended_build (Some Accelerator), DenseMatrix) = None
   \<and> implementation_convolve extended_build
      (backend_or_default extended_build (Some Accelerator), DenseMatrix) = None
   \<and> implementation_add extended_build (Reference, DenseMatrix) = Some add_kernel
   \<and> add extended_build (Some Accelerator) DenseMatrix [[1, 2]] [[3, 4]] [[0, 0]] [1, 1] =
       Inl (NoSpecialization Add Accelerator DenseMatrix)
   \<and> rejected_at_build_time
       (add extended_build (Some Accelerator) DenseMatrix [[1, 2]] [[3, 4]] [[0, 0]] [])
   \<and> rejected_at_build_time
       (subtract extended_build (Some Accelerator) DenseMatrix [[1, 2]] [[3, 4]] [[0, 0]] [])
   \<and> rejected_at_build_time
       (matrix_product extended_build (Some Accelerator) DenseMatrix [[1, 2]] [[3, 4]]
          [[0, 0]] [])
   \<and> rejected_at_build_time
       (scale extended_build (Some Accelerator) DenseMatrix [[1, 2]] [[3, 4]] [])
   \<and> rejected_at_build_time
       (elementwise_product extended_build (Some Accelerator) DenseMatrix [[1, 2]] [[3, 4]]
          [[0, 0]])
   \<and> rejected_at_build_time
       (elementwise_square extended_build (Some Accelerator) DenseMatrix [[1, 2]])
   \<and> rejected_at_build_time
       (elementwise_square_result extended_build (Some Accelerator) DenseMatrix DenseMatrix
          [[1, 2]] [[0, 0]])
   \<and> rejected_at_build_time
       (convolve extended_build (Some Accelerator) DenseMatrix [[1, 2]] [[3, 4]] [[0, 0]] [])"
  using unregistered_specialization_rejected [where bld = extended_build
      and backend = "Some Accelerator" and Matrix = DenseMatrix and ResultMatrix = DenseMatrix
      and A = "[[1, 2]]" and B = "[[3, 4]]" and C = "[[0, 0]]" and m = "[[1, 2]]"
      and result = "[[0, 0]]" and X = "[[1, 2]]" and W = "[[3, 4]]" and Y = "[[0, 0]]"
      and coefficients = "[]" and flags = "[]" and arguments = "[]" and alpha = 1 and beta = 1]
  by (simp add: extended_build_def backend_or_default_def)

subsection \<open>Default coefficients\<close>

text \<open>
  Claim C6, as amended. \<open>add\<close> and \<open>subtract\<close> accept calls without \<open>beta\<close> and without
  both coefficients, and a coefficient left out is 1. \<open>scale\<close> declares no default: a call
  of \<open>scale\<close> without \<open>alpha\<close> matches no declaration.
\<close>

theorem coefficient_defaults:
  "add bld backend Matrix A B C [] = add bld backend Matrix A B C [1, 1]
   \<and> add bld backend Matrix A B C [alpha] = add bld backend Matrix A B C [alpha, 1]
   \<and> subtract bld backend Matrix A B C [] = subtract bld backend Matrix A B C [1, 1]
   \<and> subtract bld backend Matrix A B C [alpha] = subtract bld backend Matrix A B C [alpha, 1]
   \<and> (HAVE_LINALG_LIB bld \<longrightarrow>
        scale bld backend Matrix A B [] = Inl (NoMatchingFunction Scale))"
  by (simp add: add_def subtract_def scale_def)

theorem coefficient_defaults_witness:
  "HAVE_LINALG_LIB extended_build
   \<and> add extended_build None DenseMatrix [[1, 2], [3, 4]] [[5, 6], [7, 8]] [[0, 0], [0, 0]] [] =
       Inr [[6, 8], [10, 12]]
   \<and> add extended_build None DenseMatrix [[1, 2], [3, 4]] [[5, 6], [7, 8]] [[0, 0], [0, 0]] [2] =
       Inr [[7, 10], [13, 16]]
   \<and> subtract extended_build None DenseMatrix [[1, 2], [3, 4]] [[5, 6], [7, 8]]
        [[0, 0], [0, 0]] [] = Inr [[- 4, - 4], [- 4, - 4]]
   \<and> subtract extended_build None DenseMatrix [[1, 2], [3, 4]] [[5, 6], [7, 8]]
        [[0, 0], [0, 0]] [2] = Inr [[- 3, - 2], [- 1, 0]]
   \<and> scale extended_build None DenseMatrix [[1, 2], [3, 4]] [[5, 6], [7, 8]] [] =
       Inl (NoMatchingFunction Scale)"
proof -
  have flag: "HAVE_LINALG_LIB extended_build"
    by (simp add: extended_tables)
  have explicit:
    "add extended_build None DenseMatrix [[1, 2], [3, 4]] [[5, 6], [7, 8]] [[0, 0], [0, 0]]
       [1, 1] = Inr [[6, 8], [10, 12]]"
    "add extended_build None DenseMatrix [[1, 2], [3, 4]] [[5, 6], [7, 8]] [[0, 0], [0, 0]]
       [2, 1] = Inr [[7, 10], [13, 16]]"
    "subtract extended_build None DenseMatrix [[1, 2], [3, 4]] [[5, 6], [7, 8]]
       [[0, 0], [0, 0]] [1, 1] = Inr [[- 4, - 4], [- 4, - 4]]"
    "subtract extended_build None DenseMatrix [[1, 2], [3, 4]] [[5, 6], [7, 8]]
       [[0, 0], [0, 0]] [2, 1] = Inr [[- 3, - 2], [- 1, 0]]"
    by (simp_all add: add_def subtract_def extended_tables backend_or_default_def
        specialization_def add_kernel_def shape_def passed_through_def)
  from coefficient_defaults [where bld = extended_build and backend = None
      and Matrix = DenseMatrix and A = "[[1, 2], [3, 4]]" and B = "[[5, 6], [7, 8]]"
      and C = "[[0, 0], [0, 0]]" and alpha = 2]
  show ?thesis using flag explicit by simp
qed

text \<open>
  Claim C6 as stated fails for \<open>scale\<close>: leaving \<open>alpha\<close> out is not the call with
  \<open>alpha = 1\<close>.
\<close>

theorem scale_alpha_required_counterexample:
  "scale extended_build None DenseMatrix [[1, 2], [3, 4]] [[0, 0], [0, 0]] [] =
     Inl (NoMatchingFunction Scale)
   \<and> scale extended_build None DenseMatrix [[1, 2], [3, 4]] [[0, 0], [0, 0]] [1] =
       Inr [[1, 2], [3, 4]]"
  by (simp add: scale_def extended_tables backend_or_default_def specialization_def
      scale_kernel_def shape_def passed_through_def)

subsection \<open>The specialization behind the two-container square\<close>

text \<open>
  Claim C10. \<open>elementwise_square(m, result)\<close> reaches the specialization of
  \<^verbatim>\<open>implementation::elementwise_square\<close> for the backend and the class of \<open>m\<close>: for every
  class \<open>ResultMatrix\<close> of \<open>result\<close> it runs the two-argument \<^verbatim>\<open>compute\<close> of that one
  specialization (the one the allocating signature uses), it is rejected when that
  specialization is missing, and what is registered under any other key, the key of
  \<open>ResultMatrix\<close> included, does not change the result.
\<close>

theorem elementwise_square_result_specialization:
  assumes "HAVE_LINALG_LIB bld"
  shows "(\<forall>impl.
            implementation_elementwise_square bld (backend_or_default bld backend, Matrix) =
              Some impl \<longrightarrow>
            elementwise_square_result bld backend Matrix ResultMatrix m result =
              passed_through (compute_into impl ResultMatrix m result)
            \<and> elementwise_square bld backend Matrix m =
                passed_through (compute_returning impl m))
       \<and> (implementation_elementwise_square bld (backend_or_default bld backend, Matrix) =
            None \<longrightarrow>
          elementwise_square_result bld backend Matrix ResultMatrix m result =
            Inl (NoSpecialization ElementwiseSquare (backend_or_default bld backend) Matrix))
       \<and> (\<forall>bld'.
            HAVE_LINALG_LIB bld'
            \<and> backend_or_default bld' backend = backend_or_default bld backend
            \<and> implementation_elementwise_square bld' (backend_or_default bld backend, Matrix) =
                implementation_elementwise_square bld (backend_or_default bld backend, Matrix)
            \<longrightarrow>
            elementwise_square_result bld' backend Matrix ResultMatrix m result =
              elementwise_square_result bld backend Matrix ResultMatrix m result)"
  using assms
  by (simp add: elementwise_square_result_def elementwise_square_def specialization_def)

theorem elementwise_square_result_specialization_witness:
  "HAVE_LINALG_LIB probe_build
   \<and> implementation_elementwise_square probe_build
        (backend_or_default probe_build (Some Reference), DenseMatrix) =
        Some \<lparr> compute_returning = (\<lambda>m. Inr (Some (Reference, DenseMatrix))),
               compute_into = (\<lambda>ResultMatrix m result. Inr (Some (Reference, DenseMatrix))) \<rparr>
   \<and> elementwise_square_result probe_build (Some Reference) DenseMatrix DenseVector None None =
       Inr (Some (Reference, DenseMatrix))
   \<and> elementwise_square_result probe_build (Some Reference) DenseMatrix DenseMatrix None None =
       Inr (Some (Reference, DenseMatrix))
   \<and> elementwise_square probe_build (Some Reference) DenseMatrix None =
       Inr (Some (Reference, DenseMatrix))
   \<and> implementation_elementwise_square extended_build
        (backend_or_default extended_build (Some Accelerator), DenseMatrix) = None
   \<and> elementwise_square_result extended_build (Some Accelerator) DenseMatrix DenseVector
        [[1, 2]] [[0, 0]] = Inl (NoSpecialization ElementwiseSquare Accelerator DenseMatrix)"
proof -
  have probe: "HAVE_LINALG_LIB probe_build" and extended: "HAVE_LINALG_LIB extended_build"
    by (simp_all add: probe_tables extended_tables)
  have registered: "implementation_elementwise_square probe_build
        (backend_or_default probe_build (Some Reference), DenseMatrix) =
        Some \<lparr> compute_returning = (\<lambda>m. Inr (Some (Reference, DenseMatrix))),
               compute_into = (\<lambda>ResultMatrix m result. Inr (Some (Reference, DenseMatrix))) \<rparr>"
    by (simp add: explicit_backend probe_tables)
  have missing: "implementation_elementwise_square extended_build
        (backend_or_default extended_build (Some Accelerator), DenseMatrix) = None"
    by (simp add: extended_tables explicit_backend)
  note to_vector = elementwise_square_result_specialization [OF probe,
      where backend = "Some Reference" and Matrix = DenseMatrix and ResultMatrix = DenseVector
      and m = None and result = None, THEN conjunct1, rule_format, OF registered]
  note to_matrix = elementwise_square_result_specialization [OF probe,
      where backend = "Some Reference" and Matrix = DenseMatrix and ResultMatrix = DenseMatrix
      and m = None and result = None, THEN conjunct1, rule_format, OF registered]
  note rejected = elementwise_square_result_specialization [OF extended,
      where backend = "Some Accelerator" and Matrix = DenseMatrix and ResultMatrix = DenseVector
      and m = "[[1, 2]]" and result = "[[0, 0]]", THEN conjunct2, THEN conjunct1,
      rule_format, OF missing]
  have "elementwise_square_result probe_build (Some Reference) DenseMatrix DenseVector None None =
       Inr (Some (Reference, DenseMatrix))"
    using to_vector by (simp add: passed_through_def)
  moreover have "elementwise_square_result probe_build (Some Reference) DenseMatrix DenseMatrix
       None None = Inr (Some (Reference, DenseMatrix))"
    using to_matrix by (simp add: passed_through_def)
  moreover have "elementwise_square probe_build (Some Reference) DenseMatrix None =
       Inr (Some (Reference, DenseMatrix))"
    using to_vector by (simp add: passed_through_def)
  moreover have "elementwise_square_result extended_build (Some Accelerator) DenseMatrix
       DenseVector [[1, 2]] [[0, 0]] =
       Inl (NoSpecialization ElementwiseSquare Accelerator DenseMatrix)"
    using rejected by (simp add: explicit_backend)
  ultimately show ?thesis
    using probe registered missing by (intro conjI)
qed

section \<open>Properties that rest on the implementation modules\<close>

text \<open>
  The theorems of this section are about calls that reach the kernels defined above from
  the specification's description of the implementation modules. What they say about the
  contents of the result is a property of those definitions; what Core.h contributes is
  the default arguments and the forwarding.
\<close>

subsection \<open>Auxiliary facts about containers\<close>

lemma shape_eq_iff:
  "shape A = shape B \<longleftrightarrow>
     length A = length B \<and> (\<forall>i<length A. length (A ! i) = length (B ! i))"
  by (auto simp: shape_def list_eq_iff_nth_eq)

lemma shape_map2:
  assumes "shape A = shape B"
  shows "shape (map2 (map2 f) A B) = shape A"
  using assms by (auto simp: shape_def list_eq_iff_nth_eq)

lemma nth_map2_map2:
  assumes "shape A = shape B" "i < length A" "j < length (A ! i)"
  shows "map2 (map2 f) A B ! i ! j = f (A ! i ! j) (B ! i ! j)"
  using assms by (auto simp: shape_eq_iff)

lemma shape_map_map: "shape (map (map f) A) = shape A"
  by (simp add: shape_def)

lemma shape_tabulate: "shape (tabulate r c f) = replicate r c"
  by (simp add: tabulate_def shape_def list_eq_iff_nth_eq)

lemma nth_tabulate: "i < r \<Longrightarrow> j < c \<Longrightarrow> tabulate r c f ! i ! j = f i j"
  by (simp add: tabulate_def)

lemma rows_tabulate: "rows (tabulate r c f) = r"
  by (simp add: rows_def tabulate_def)

lemma cols_tabulate: "0 < r \<Longrightarrow> cols (tabulate r c f) = c"
  by (simp add: cols_def tabulate_def upt_conv_Cons)

lemma shape_rectangular: "rectangular X \<Longrightarrow> shape X = replicate (rows X) (cols X)"
  by (auto simp: rectangular_def shape_def rows_def list_eq_iff_nth_eq list_all_length)

lemma nth_matrix_sum:
  assumes "shape C = shape P" "i < length P" "j < length (P ! i)"
  shows "matrix_sum C P ! i ! j = C ! i ! j + P ! i ! j"
  using assms by (simp add: matrix_sum_def shape_eq_iff)

lemma shape_matrix_sum: "shape C = shape P \<Longrightarrow> shape (matrix_sum C P) = shape P"
  by (simp add: matrix_sum_def shape_map2)

lemma nth_transposed:
  "i < cols A \<Longrightarrow> j < rows A \<Longrightarrow> transposed A ! i ! j = A ! j ! i"
  by (simp add: transposed_def nth_tabulate)

lemma nth_product:
  "i < rows A \<Longrightarrow> j < cols B \<Longrightarrow>
   product A B ! i ! j = (\<Sum>k\<leftarrow>[0..<cols A]. A ! i ! k * B ! k ! j)"
  by (simp add: product_def nth_tabulate)

lemma length_product: "length (product A B) = rows A"
  by (simp add: product_def tabulate_def)

lemma length_nth_product: "i < rows A \<Longrightarrow> length (product A B ! i) = cols B"
  by (simp add: product_def tabulate_def)

lemma length_nth_rectangular: "rectangular X \<Longrightarrow> i < rows X \<Longrightarrow> length (X ! i) = cols X"
  by (simp add: rectangular_def rows_def list_all_length)

lemma padded_outside:
  assumes "rectangular X"
    and "\<not> (0 \<le> i \<and> i < int (rows X) \<and> 0 \<le> j \<and> j < int (cols X))"
  shows "padded X i j = 0"
proof (cases "0 \<le> i \<and> i < int (rows X)")
  case True
  then have "nat i < rows X" by (simp add: nat_less_iff)
  with assms(1) have "length (X ! nat i) = cols X" by (rule length_nth_rectangular)
  with assms(2) True show ?thesis by (auto simp: padded_def rows_def)
next
  case False
  then show ?thesis by (auto simp: padded_def rows_def)
qed

subsection \<open>Linear combination\<close>

text \<open>
  Claim C5. When the kernel of \<open>add\<close> is the one of the specification, then for all
  containers \<open>A\<close>, \<open>B\<close>, \<open>C\<close> of one shape and all scalars \<open>alpha\<close>, \<open>beta\<close>,
  \<open>add(A, B, C, alpha, beta)\<close> succeeds and writes into \<open>C\<close> a container of that shape with
  \<open>C[i,j] = alpha * A[i,j] + beta * B[i,j]\<close> for every coefficient. With
  \<open>A = [[1, 2], [3, 4]]\<close>, \<open>B = [[5, 6], [7, 8]]\<close> and \<open>alpha = beta = 1\<close>, given or left out, the
  result is \<open>[[6, 8], [10, 12]]\<close>.
\<close>

theorem add_computes_linear_combination:
  assumes "implementation_add bld (backend_or_default bld backend, Matrix) = Some add_kernel"
  shows "(shape A = shape B \<and> shape B = shape C \<longrightarrow>
            (\<exists>C'. add bld backend Matrix A B C [alpha, beta] = Inr C'
               \<and> shape C' = shape A
               \<and> (\<forall>i<length A. \<forall>j<length (A ! i).
                    C' ! i ! j = alpha * A ! i ! j + beta * B ! i ! j)))
       \<and> (shape C0 = [2, 2] \<longrightarrow>
            add bld backend Matrix [[1, 2], [3, 4]] [[5, 6], [7, 8]] C0 [1, 1] =
              Inr [[6, 8], [10, 12]]
            \<and> add bld backend Matrix [[1, 2], [3, 4]] [[5, 6], [7, 8]] C0 [] =
                Inr [[6, 8], [10, 12]])"
proof (intro conjI impI)
  assume shapes: "shape A = shape B \<and> shape B = shape C"
  let ?C' = "map2 (map2 (\<lambda>a b. alpha * a + beta * b)) A B"
  have "add bld backend Matrix A B C [alpha, beta] = Inr ?C'"
    using assms shapes
    by (simp add: add_def specialization_Some add_kernel_def passed_through_def)
  moreover have "shape ?C' = shape A"
    using shapes by (simp add: shape_map2)
  moreover have "\<forall>i<length A. \<forall>j<length (A ! i).
      ?C' ! i ! j = alpha * A ! i ! j + beta * B ! i ! j"
    using shapes by (simp add: nth_map2_map2)
  ultimately show "\<exists>C'. add bld backend Matrix A B C [alpha, beta] = Inr C'
      \<and> shape C' = shape A
      \<and> (\<forall>i<length A. \<forall>j<length (A ! i).
           C' ! i ! j = alpha * A ! i ! j + beta * B ! i ! j)"
    by blast
next
  assume "shape C0 = [2, 2]"
  then show "add bld backend Matrix [[1, 2], [3, 4]] [[5, 6], [7, 8]] C0 [1, 1] =
      Inr [[6, 8], [10, 12]]"
    using assms
    by (simp add: add_def specialization_Some add_kernel_def passed_through_def shape_def)
next
  assume "shape C0 = [2, 2]"
  then show "add bld backend Matrix [[1, 2], [3, 4]] [[5, 6], [7, 8]] C0 [] =
      Inr [[6, 8], [10, 12]]"
    using assms
    by (simp add: add_def specialization_Some add_kernel_def passed_through_def shape_def)
qed

theorem add_computes_linear_combination_witness:
  "implementation_add extended_build (backend_or_default extended_build None, DenseMatrix) =
     Some add_kernel
   \<and> shape [[1, 2], [3, 4 :: int]] = shape [[5, 6], [7, 8 :: int]]
   \<and> shape [[5, 6], [7, 8 :: int]] = shape [[0, 0], [0, 0 :: int]]
   \<and> shape [[0, 0], [0, 0 :: int]] = [2, 2]
   \<and> add extended_build None DenseMatrix [[1, 2], [3, 4]] [[5, 6], [7, 8]] [[0, 0], [0, 0]]
        [1, 1] = Inr [[6, 8], [10, 12]]
   \<and> add extended_build None DenseMatrix [[1, 2], [3, 4]] [[5, 6], [7, 8]] [[0, 0], [0, 0]]
        [] = Inr [[6, 8], [10, 12]]"
proof -
  have registered: "implementation_add extended_build
      (backend_or_default extended_build None, DenseMatrix) = Some add_kernel"
    by (simp add: backend_or_default_def extended_tables)
  have shapes: "shape [[1, 2], [3, 4 :: int]] = shape [[5, 6], [7, 8 :: int]]"
    "shape [[5, 6], [7, 8 :: int]] = shape [[0, 0], [0, 0 :: int]]"
    "shape [[0, 0], [0, 0 :: int]] = [2, 2]"
    by (simp_all add: shape_def)
  note scenario = add_computes_linear_combination [OF registered,
      where ?C0.0 = "[[0, 0], [0, 0]]", THEN conjunct2, rule_format, OF shapes(3)]
  show ?thesis
    using registered shapes scenario by (intro conjI) simp_all
qed

subsection \<open>Matrix product: replace or accumulate\<close>

text \<open>
  Claim C7. When the kernel of \<open>matrix_product\<close> is the one of the specification and the
  containers are conformable, a call with \<open>overwrite = false\<close> leaves in \<open>C\<close> its prior
  contents plus \<open>op(A) * op(B)\<close>, coefficient by coefficient; with \<open>overwrite = true\<close>, which
  is also what a call gets that leaves the flag out, \<open>C\<close> is replaced by \<open>op(A) * op(B)\<close>.
  \<open>op\<close> is the identity when its flag is false and the transpose when it is true, and a call
  without flags transposes nothing.
\<close>

theorem matrix_product_overwrite_or_accumulate:
  assumes "HAVE_LINALG_LIB bld"
    and "implementation_matrix_product bld (backend_or_default bld backend, Matrix) =
           Some matrix_product_kernel"
    and "cols (op transpose_A A) = rows (op transpose_B B)"
    and "shape C = shape (product (op transpose_A A) (op transpose_B B))"
  shows "matrix_product bld backend Matrix A B C [transpose_A, transpose_B, False] =
           Inr (matrix_sum C (product (op transpose_A A) (op transpose_B B)))
       \<and> matrix_product bld backend Matrix A B C [transpose_A, transpose_B, True] =
           Inr (product (op transpose_A A) (op transpose_B B))
       \<and> matrix_product bld backend Matrix A B C [transpose_A, transpose_B] =
           Inr (product (op transpose_A A) (op transpose_B B))
       \<and> (\<not> transpose_A \<and> \<not> transpose_B \<longrightarrow>
            matrix_product bld backend Matrix A B C [] = Inr (product A B))
       \<and> (\<forall>i<rows (op transpose_A A). \<forall>j<cols (op transpose_B B).
            matrix_sum C (product (op transpose_A A) (op transpose_B B)) ! i ! j =
              C ! i ! j +
              (\<Sum>k\<leftarrow>[0..<cols (op transpose_A A)].
                 op transpose_A A ! i ! k * op transpose_B B ! k ! j)
            \<and> product (op transpose_A A) (op transpose_B B) ! i ! j =
                (\<Sum>k\<leftarrow>[0..<cols (op transpose_A A)].
                   op transpose_A A ! i ! k * op transpose_B B ! k ! j))
       \<and> op False A = A
       \<and> (\<forall>i<cols A. \<forall>j<rows A. op True A ! i ! j = A ! j ! i)"
proof -
  let ?P = "product (op transpose_A A) (op transpose_B B)"
  have run: "matrix_product bld backend Matrix A B C [transpose_A, transpose_B, overwrite] =
      Inr (if overwrite then ?P else matrix_sum C ?P)" for overwrite
    using assms
    by (simp add: matrix_product_def specialization_Some matrix_product_kernel_def
        passed_through_def Let_def)
  have default: "matrix_product bld backend Matrix A B C [transpose_A, transpose_B] =
      matrix_product bld backend Matrix A B C [transpose_A, transpose_B, True]"
    by (simp add: matrix_product_def)
  have none: "matrix_product bld backend Matrix A B C [] =
      matrix_product bld backend Matrix A B C [False, False, True]"
    by (simp add: matrix_product_def)
  have plain: "\<not> transpose_A \<and> \<not> transpose_B \<longrightarrow>
      matrix_product bld backend Matrix A B C [] = Inr (product A B)"
    using run [of True] by (auto simp: none op_def)
  have entries: "\<forall>i<rows (op transpose_A A). \<forall>j<cols (op transpose_B B).
      matrix_sum C ?P ! i ! j =
        C ! i ! j +
        (\<Sum>k\<leftarrow>[0..<cols (op transpose_A A)].
           op transpose_A A ! i ! k * op transpose_B B ! k ! j)
      \<and> ?P ! i ! j =
          (\<Sum>k\<leftarrow>[0..<cols (op transpose_A A)].
             op transpose_A A ! i ! k * op transpose_B B ! k ! j)"
    using assms(4) by (simp add: nth_matrix_sum length_product length_nth_product nth_product)
  have ops: "op False A = A" "\<forall>i<cols A. \<forall>j<rows A. op True A ! i ! j = A ! j ! i"
    by (simp_all add: op_def nth_transposed)
  from run [of False] run [of True] default plain entries ops show ?thesis
    by simp
qed

theorem matrix_product_overwrite_or_accumulate_witness:
  "HAVE_LINALG_LIB extended_build
   \<and> implementation_matrix_product extended_build
        (backend_or_default extended_build None, DenseMatrix) = Some matrix_product_kernel
   \<and> cols (op False [[1, 2], [3, 4 :: int]]) = rows (op False [[5, 6], [7, 8 :: int]])
   \<and> shape [[1, 1], [1, 1 :: int]] =
        shape (product (op False [[1, 2], [3, 4 :: int]]) (op False [[5, 6], [7, 8]]))
   \<and> matrix_product extended_build None DenseMatrix [[1, 2], [3, 4]] [[5, 6], [7, 8]]
        [[1, 1], [1, 1]] [False, False, False] = Inr [[20, 23], [44, 51]]
   \<and> matrix_product extended_build None DenseMatrix [[1, 2], [3, 4]] [[5, 6], [7, 8]]
        [[1, 1], [1, 1]] [False, False, True] = Inr [[19, 22], [43, 50]]
   \<and> matrix_product extended_build None DenseMatrix [[1, 2], [3, 4]] [[5, 6], [7, 8]]
        [[1, 1], [1, 1]] [] = Inr [[19, 22], [43, 50]]"
proof -
  have flag: "HAVE_LINALG_LIB extended_build"
    by (simp add: extended_tables)
  have registered: "implementation_matrix_product extended_build
      (backend_or_default extended_build None, DenseMatrix) = Some matrix_product_kernel"
    by (simp add: backend_or_default_def extended_tables)
  have P: "product (op False [[1, 2], [3, 4 :: int]]) (op False [[5, 6], [7, 8]]) =
      [[19, 22], [43, 50]]"
    by (simp add: op_def product_def tabulate_def rows_def cols_def upt_conv_Cons)
  have inner: "cols (op False [[1, 2], [3, 4 :: int]]) = rows (op False [[5, 6], [7, 8 :: int]])"
    by (simp add: op_def rows_def cols_def)
  have outer: "shape [[1, 1], [1, 1 :: int]] =
      shape (product (op False [[1, 2], [3, 4 :: int]]) (op False [[5, 6], [7, 8]]))"
    by (simp add: P shape_def)
  have S: "matrix_sum [[1, 1], [1, 1 :: int]] [[19, 22], [43, 50]] = [[20, 23], [44, 51]]"
    by (simp add: matrix_sum_def)
  note mp = matrix_product_overwrite_or_accumulate [OF flag registered inner outer]
  have accumulated: "matrix_product extended_build None DenseMatrix [[1, 2], [3, 4]]
      [[5, 6], [7, 8]] [[1, 1], [1, 1]] [False, False, False] = Inr [[20, 23], [44, 51]]"
    using mp [THEN conjunct1] by (simp add: P S)
  have replaced: "matrix_product extended_build None DenseMatrix [[1, 2], [3, 4]]
      [[5, 6], [7, 8]] [[1, 1], [1, 1]] [False, False, True] = Inr [[19, 22], [43, 50]]"
    using mp [THEN conjunct2, THEN conjunct1] by (simp add: P)
  have omitted: "matrix_product extended_build None DenseMatrix [[1, 2], [3, 4]]
      [[5, 6], [7, 8]] [[1, 1], [1, 1]] [] = Inr [[19, 22], [43, 50]]"
    using mp [THEN conjunct2, THEN conjunct2, THEN conjunct2, THEN conjunct1] P
    by (simp add: op_def)
  show ?thesis
    using flag registered inner outer accumulated replaced omitted by (intro conjI)
qed

subsection \<open>The two signatures of the elementwise square\<close>

text \<open>
  Claim C8. When the specialization of \<open>elementwise_square\<close> is the one of the
  specification, the signature that returns a new container and the signature that writes
  into a caller's container of the shape of \<open>m\<close> give the same container for every \<open>m\<close>: the
  one of the shape of \<open>m\<close> whose coefficients are the squares of those of \<open>m\<close>.
\<close>

theorem elementwise_square_signatures_agree:
  assumes "HAVE_LINALG_LIB bld"
    and "implementation_elementwise_square bld (backend_or_default bld backend, Matrix) =
           Some elementwise_square_kernel"
    and "shape result = shape m"
  shows "elementwise_square bld backend Matrix m = Inr (squares m)
       \<and> elementwise_square_result bld backend Matrix ResultMatrix m result =
           elementwise_square bld backend Matrix m
       \<and> shape (squares m) = shape m
       \<and> (\<forall>i<length m. \<forall>j<length (m ! i). squares m ! i ! j = (m ! i ! j)\<^sup>2)"
  using assms
  by (simp add: elementwise_square_def elementwise_square_result_def specialization_Some
      elementwise_square_kernel_def passed_through_def squares_def shape_map_map power2_eq_square)

theorem elementwise_square_signatures_agree_witness:
  "HAVE_LINALG_LIB extended_build
   \<and> implementation_elementwise_square extended_build
        (backend_or_default extended_build None, DenseMatrix) = Some elementwise_square_kernel
   \<and> shape [[0, 0], [0, 0 :: int]] = shape [[1, 2], [3, 4 :: int]]
   \<and> elementwise_square extended_build None DenseMatrix [[1, 2], [3, 4]] =
       Inr [[1, 4], [9, 16]]
   \<and> elementwise_square_result extended_build None DenseMatrix DenseMatrix
        [[1, 2], [3, 4]] [[0, 0], [0, 0]] = Inr [[1, 4], [9, 16]]"
proof -
  have flag: "HAVE_LINALG_LIB extended_build"
    by (simp add: extended_tables)
  have registered: "implementation_elementwise_square extended_build
      (backend_or_default extended_build None, DenseMatrix) = Some elementwise_square_kernel"
    by (simp add: backend_or_default_def extended_tables)
  have shapes: "shape [[0, 0], [0, 0 :: int]] = shape [[1, 2], [3, 4 :: int]]"
    by (simp add: shape_def)
  have squared: "squares [[1, 2], [3, 4 :: int]] = [[1, 4], [9, 16]]"
    by (simp add: squares_def)
  note agree = elementwise_square_signatures_agree [OF flag registered shapes,
      where ResultMatrix = DenseMatrix]
  show ?thesis
    using flag registered shapes agree squared by simp
qed

subsection \<open>Convolution at unit stride\<close>

text \<open>
  Claim C9. When the kernel of \<open>convolve\<close> is the one of the specification, then for every
  image \<open>X\<close> and every kernel \<open>W\<close> with an odd number of rows and of columns, a call whose
  strides are both 1 (given, or left out) succeeds exactly when the caller's \<open>Y\<close> has the
  shape of \<open>X\<close>, and then the output has the shape of \<open>X\<close>: every position of \<open>X\<close>, those on
  the boundary included, receives its window sum, in which the image reads as zero outside
  its bounds. An output container of any other shape is reported as a shape mismatch.
\<close>

theorem convolve_unit_stride_keeps_shape:
  assumes "HAVE_LINALG_LIB bld"
    and "implementation_convolve bld (backend_or_default bld backend, Matrix) =
           Some convolve_kernel"
    and "odd (rows W)" and "odd (cols W)"
    and "rectangular X"
    and "flip_overwrite_strides arguments = Some (flip, overwrite, 1, 1)"
  shows "(shape Y = shape X \<longrightarrow>
            (\<exists>Y'. convolve bld backend Matrix X W Y arguments = Inr Y'
               \<and> shape Y' = shape X
               \<and> (\<forall>i<rows X. \<forall>j<cols X.
                    Y' ! i ! j =
                      (if overwrite then 0 else Y ! i ! j) + window_sum flip X W i j)))
       \<and> (shape Y \<noteq> shape X \<longrightarrow>
            convolve bld backend Matrix X W Y arguments = Inl (BackendError ShapeMismatch))
       \<and> (\<forall>i j. \<not> (0 \<le> i \<and> i < int (rows X) \<and> 0 \<le> j \<and> j < int (cols X)) \<longrightarrow>
            padded X i j = 0)"
proof -
  let ?out = "tabulate (rows X) (cols X) (\<lambda>i j. window_sum flip X W i j)"
  have shape_out: "shape ?out = shape X"
    using assms(5) by (simp add: shape_tabulate shape_rectangular)
  have run: "convolve bld backend Matrix X W Y arguments =
      (if shape Y = shape X
       then Inr (if overwrite then ?out else matrix_sum Y ?out)
       else Inl (BackendError ShapeMismatch))"
    using assms(1-4,6) shape_out
    by (simp add: convolve_def specialization_Some convolve_kernel_def passed_through_def)
  have length_out: "length ?out = rows X" "\<And>i. i < rows X \<Longrightarrow> length (?out ! i) = cols X"
    by (simp_all add: tabulate_def)
  have same: "shape Y = shape X \<longrightarrow>
      (\<exists>Y'. convolve bld backend Matrix X W Y arguments = Inr Y'
         \<and> shape Y' = shape X
         \<and> (\<forall>i<rows X. \<forall>j<cols X.
              Y' ! i ! j = (if overwrite then 0 else Y ! i ! j) + window_sum flip X W i j))"
  proof
    assume Y: "shape Y = shape X"
    show "\<exists>Y'. convolve bld backend Matrix X W Y arguments = Inr Y'
         \<and> shape Y' = shape X
         \<and> (\<forall>i<rows X. \<forall>j<cols X.
              Y' ! i ! j = (if overwrite then 0 else Y ! i ! j) + window_sum flip X W i j)"
    proof (cases overwrite)
      case True
      with Y run shape_out show ?thesis by (simp add: nth_tabulate)
    next
      case False
      from Y shape_out have YO: "shape Y = shape ?out" by simp
      have "shape (matrix_sum Y ?out) = shape X"
        using YO shape_out by (simp add: shape_matrix_sum)
      moreover have "\<forall>i<rows X. \<forall>j<cols X.
          matrix_sum Y ?out ! i ! j = Y ! i ! j + window_sum flip X W i j"
        using YO by (simp add: nth_matrix_sum length_out nth_tabulate)
      ultimately show ?thesis using False Y run by simp
    qed
  qed
  from same run assms(5) show ?thesis
    by (simp add: padded_outside)
qed


theorem convolve_unit_stride_keeps_shape_witness:
  "HAVE_LINALG_LIB extended_build
   \<and> implementation_convolve extended_build
        (backend_or_default extended_build None, DenseMatrix) = Some convolve_kernel
   \<and> odd (rows [[1, 0, 0], [0, 0, 0], [0, 0, 0 :: int]])
   \<and> odd (cols [[1, 0, 0], [0, 0, 0], [0, 0, 0 :: int]])
   \<and> rectangular [[1, 2, 3], [4, 5, 6], [7, 8, 9 :: int]]
   \<and> flip_overwrite_strides [] = Some (False, True, 1, 1)
   \<and> shape [[0, 0, 0], [0, 0, 0], [0, 0, 0 :: int]] =
        shape [[1, 2, 3], [4, 5, 6], [7, 8, 9 :: int]]
   \<and> shape [[0, 0], [0, 0 :: int]] \<noteq> shape [[1, 2, 3], [4, 5, 6], [7, 8, 9 :: int]]
   \<and> convolve extended_build None DenseMatrix [[1, 2, 3], [4, 5, 6], [7, 8, 9]]
        [[1, 0, 0], [0, 0, 0], [0, 0, 0]] [[0, 0, 0], [0, 0, 0], [0, 0, 0]] [] =
        Inr [[5, 6, 0], [8, 9, 0], [0, 0, 0]]
   \<and> convolve extended_build None DenseMatrix [[1, 2, 3], [4, 5, 6], [7, 8, 9]]
        [[1, 0, 0], [0, 0, 0], [0, 0, 0]] [[0, 0], [0, 0]] [] =
        Inl (BackendError ShapeMismatch)"
proof -
  have flag: "HAVE_LINALG_LIB extended_build"
    by (simp add: extended_tables)
  have registered: "implementation_convolve extended_build
      (backend_or_default extended_build None, DenseMatrix) = Some convolve_kernel"
    by (simp add: backend_or_default_def extended_tables)
  have kernel: "odd (rows [[1, 0, 0], [0, 0, 0], [0, 0, 0 :: int]])"
    "odd (cols [[1, 0, 0], [0, 0, 0], [0, 0, 0 :: int]])"
    by (simp_all add: rows_def cols_def)
  have image: "rectangular [[1, 2, 3], [4, 5, 6], [7, 8, 9 :: int]]"
    by (simp add: rectangular_def cols_def)
  have arguments: "flip_overwrite_strides [] = Some (False, True, 1, 1)"
    by simp
  have same: "shape [[0, 0, 0], [0, 0, 0], [0, 0, 0 :: int]] =
      shape [[1, 2, 3], [4, 5, 6], [7, 8, 9 :: int]]"
    and other: "shape [[0, 0], [0, 0 :: int]] \<noteq> shape [[1, 2, 3], [4, 5, 6], [7, 8, 9 :: int]]"
    by (simp_all add: shape_def)
  note conv = convolve_unit_stride_keeps_shape [OF flag registered kernel image arguments]
  have mismatch: "convolve extended_build None DenseMatrix [[1, 2, 3], [4, 5, 6], [7, 8, 9]]
      [[1, 0, 0], [0, 0, 0], [0, 0, 0]] [[0, 0], [0, 0]] [] = Inl (BackendError ShapeMismatch)"
    using conv [where Y = "[[0, 0], [0, 0]]", THEN conjunct2, THEN conjunct1] other by simp
  from conv [where Y = "[[0, 0, 0], [0, 0, 0], [0, 0, 0]]", THEN conjunct1] same
  obtain Y' where Y': "convolve extended_build None DenseMatrix [[1, 2, 3], [4, 5, 6], [7, 8, 9]]
      [[1, 0, 0], [0, 0, 0], [0, 0, 0]] [[0, 0, 0], [0, 0, 0], [0, 0, 0]] [] = Inr Y'"
    by blast
  have "convolve extended_build None DenseMatrix [[1, 2, 3], [4, 5, 6], [7, 8, 9]]
      [[1, 0, 0], [0, 0, 0], [0, 0, 0]] [[0, 0, 0], [0, 0, 0], [0, 0, 0]] [] =
      Inr [[5, 6, 0], [8, 9, 0], [0, 0, 0]]"
    by (simp add: convolve_def extended_tables backend_or_default_def specialization_def
        convolve_kernel_def passed_through_def rows_def cols_def tabulate_def shape_def
        window_sum_def padded_def upt_conv_Cons)
  with Y' mismatch flag registered kernel image arguments same other show ?thesis
    by (intro conjI)
qed

end
